theory Spec2Isabelle
  imports Complex_Main
begin

section \<open>Tensors, errors and collaborators\<close>

text \<open>
  The trainer of \<^verbatim>\<open>src/trainer/trainer.py\<close> drives three opaque collaborators (the
  generator \<^verbatim>\<open>self.vqgan\<close>, the discriminator and the LPIPS scorer) and two Adam
  optimizers. Python floats are modelled by reals. An image is its flattened list of
  values, a batch is the list of its images (dimension 0 of the tensor), and a tensor of
  discriminator scores or of per-sample perceptual distances is a flat list.
\<close>

type_synonym image = "real list"
type_synonym batch = "image list"

datatype error = ShapeError | ZeroDivisionError | CollaboratorError | IOError

text \<open>Sequencing of fallible operations: the first raise ends the computation.\<close>

definition bind_err :: "error + 'a \<Rightarrow> ('a \<Rightarrow> error + 'b) \<Rightarrow> error + 'b" where
  "bind_err r f = (case r of Inl e \<Rightarrow> Inl e | Inr x \<Rightarrow> f x)"

text \<open>
  \<^verbatim>\<open>torch.mean\<close> and \<^verbatim>\<open>F.relu\<close>. On an empty tensor \<^verbatim>\<open>torch.mean\<close> is nan, which
  a real cannot express: what is said below of the value of a mean is said of a tensor
  with at least one value. (A data loader yields no empty batch.)
\<close>

definition tensor_mean :: "real list \<Rightarrow> real" where
  "tensor_mean xs = sum_list xs / real (length xs)"

definition relu :: "real \<Rightarrow> real" where
  "relu x = max 0 x"

text \<open>
  \<^verbatim>\<open>torch.abs(imgs - decoded_images)\<close>, elementwise on two batches of one shape. The
  generator reconstructs to the shape of its input; a reconstruction of another shape
  is an error here (broadcasting between two different shapes is left out).
\<close>

definition abs_diff :: "batch \<Rightarrow> batch \<Rightarrow> error + batch" where
  "abs_diff imgs decoded =
     (if map length imgs = map length decoded
      then Inr (map2 (map2 (\<lambda>x y. \<bar>x - y\<bar>)) imgs decoded)
      else Inl ShapeError)"

text \<open>
  \<^verbatim>\<open>self.perceptual_loss_factor * perceptual_loss + self.rec_loss_factor * rec_loss\<close>:
  the perceptual distance has one value per sample (shape (B,1,1,1)) and is broadcast
  over the values of that sample's reconstruction error. A number of distances other
  than the number of samples is an error here.
\<close>

definition weighted_sum :: "real \<Rightarrow> real \<Rightarrow> real list \<Rightarrow> batch \<Rightarrow> error + batch" where
  "weighted_sum plf rlf perceptual rec_loss =
     (if length perceptual = length rec_loss
      then Inr (map2 (\<lambda>p row. map (\<lambda>r. plf * p + rlf * r) row) perceptual rec_loss)
      else Inl ShapeError)"

section \<open>The trainer's state\<close>

text \<open>
  The fields of \<^verbatim>\<open>VQGANTrainer\<close>. The parameters of the two models, the gradients
  accumulated on them and the moment states of the two optimizers are kept apart, each
  of an abstract type: \<open>'p\<close> parameters, \<open>'g\<close> gradients, \<open>'m\<close> Adam moments, \<open>'f\<close>
  rendered frames.
\<close>

record ('p, 'g, 'm, 'f) trainer =
  vq_params :: 'p
  disc_params :: 'p
  vq_grads :: 'g
  disc_grads :: 'g
  opt_vq_state :: 'm
  opt_disc_state :: 'm
  disc_factor :: real
  disc_start :: int
  perceptual_loss_factor :: real
  rec_loss_factor :: real
  expriment_save_dir :: string
  global_step :: int
  sample_batch :: "batch option"
  gif_images :: "'f list"
  save_every :: int

text \<open>
  What the trainer calls and does not define. Each operation may raise. An operation
  receives what it reads and returns what it writes. A forward pass is a function of
  the parameters of its model; the generator returns the reconstruction and the
  quantization loss (its code indices, which \<^verbatim>\<open>step\<close> discards, are left out). Automatic differentiation (the gradient magnitudes of
  \<^verbatim>\<open>calculate_lambda\<close> and the two backward passes) reads the graph that the step
  has built, which the trainer and the batch determine; a backward pass returns the
  two gradient stores, an optimizer update the parameters and moments of its own
  model. Writing a file at a path may fail.
\<close>

record ('p, 'g, 'm, 'f) collab =
  vqgan :: "'p \<Rightarrow> batch \<Rightarrow> error + (batch \<times> real)"
  perceptual :: "batch \<Rightarrow> batch \<Rightarrow> error + real list"
  discriminator :: "'p \<Rightarrow> batch \<Rightarrow> error + real list"
  grad_norms :: "('p, 'g, 'm, 'f) trainer \<Rightarrow> batch \<Rightarrow> error + (real \<times> real)"
  ratio_by_zero :: real
  zero_grad :: "'g \<Rightarrow> 'g"
  backward_vq :: "('p, 'g, 'm, 'f) trainer \<Rightarrow> batch \<Rightarrow> error + ('g \<times> 'g)"
  backward_gan :: "('p, 'g, 'm, 'f) trainer \<Rightarrow> batch \<Rightarrow> error + ('g \<times> 'g)"
  adam_step :: "'p \<Rightarrow> 'g \<Rightarrow> 'm \<Rightarrow> error + ('p \<times> 'm)"
  make_grid :: "batch \<Rightarrow> error + 'f"
  io_fails :: "string \<Rightarrow> bool"
  new_discriminator :: 'p
  new_grads :: 'g
  new_adam :: 'm

section \<open>The generator's two helpers\<close>

text \<open>
  Modelled from the spec: \<^verbatim>\<open>VQGAN.adopt_weight\<close> of the module \<^verbatim>\<open>vqgan\<close>, which is
  not among the sources. The spec, section 4.2 step 4: the gate factor "equals the
  configured disc_factor constant once Global Step Counter \<ge> disc_start threshold,
  else 0".
\<close>

definition adopt_weight :: "real \<Rightarrow> int \<Rightarrow> int \<Rightarrow> real" where
  "adopt_weight factor i threshold = (if i \<ge> threshold then factor else 0)"

definition clamp :: "real \<Rightarrow> real \<Rightarrow> real \<Rightarrow> real" where
  "clamp x lo hi = min (max x lo) hi"

text \<open>
  Modelled from the spec: \<^verbatim>\<open>VQGAN.calculate_lambda\<close> of the module \<^verbatim>\<open>vqgan\<close>, which
  is not among the sources. The spec, section 4.2 step 6: the helper "compares the
  gradient magnitude of the reconstruction-perceptual loss against the gradient
  magnitude of the generator adversarial loss with respect to the last shared decoder
  layer's weights, and returns their ratio clamped to a bounded range (documented
  range: [0, 1e4])". The two magnitudes come from automatic differentiation
  (\<open>grad_norms\<close>). The spec does not say what the ratio is when the second magnitude
  is zero: that value is the parameter \<open>by_zero\<close>.
\<close>

definition ratio :: "real \<Rightarrow> real \<Rightarrow> real \<Rightarrow> real" where
  "ratio by_zero a b = (if b = 0 then by_zero else a / b)"

definition calculate_lambda :: "real \<Rightarrow> real \<Rightarrow> real \<Rightarrow> real" where
  "calculate_lambda by_zero rec_grad_norm adv_grad_norm =
     clamp (ratio by_zero rec_grad_norm adv_grad_norm) 0 10000"

section \<open>Construction\<close>

text \<open>
  \<^verbatim>\<open>VQGANTrainer.__init__\<close>: a fresh discriminator, two fresh optimizers, the
  hyperparameters, and the counters of the run. (The cleaning of the image directory
  acts on the file system only.)
\<close>

definition init ::
  "('p, 'g, 'm, 'f) collab \<Rightarrow> 'p \<Rightarrow> real \<Rightarrow> int \<Rightarrow> real \<Rightarrow> real \<Rightarrow> int \<Rightarrow> string
     \<Rightarrow> ('p, 'g, 'm, 'f) trainer" where
  "init env model disc_factor' disc_start' plf rlf save_every' experiment_dir =
     \<lparr> vq_params = model,
       disc_params = new_discriminator env,
       vq_grads = new_grads env,
       disc_grads = new_grads env,
       opt_vq_state = new_adam env,
       opt_disc_state = new_adam env,
       disc_factor = disc_factor',
       disc_start = disc_start',
       perceptual_loss_factor = plf,
       rec_loss_factor = rlf,
       expriment_save_dir = experiment_dir,
       global_step = 0,
       sample_batch = None,
       gif_images = [],
       save_every = save_every' \<rparr>"

section \<open>The optimization step\<close>

text \<open>The gate factor of \<^verbatim>\<open>step\<close> (lines 135 to 137).\<close>

definition gate_factor :: "('p, 'g, 'm, 'f) trainer \<Rightarrow> real" where
  "gate_factor s = adopt_weight (disc_factor s) (global_step s) (disc_start s)"

text \<open>
  The reconstruction-perceptual loss (lines 120 to 126), from the perceptual distances
  and the two batches.
\<close>

definition perceptual_rec_loss ::
  "('p, 'g, 'm, 'f) trainer \<Rightarrow> real list \<Rightarrow> batch \<Rightarrow> batch \<Rightarrow> error + real" where
  "perceptual_rec_loss s perceptual_loss imgs decoded =
     bind_err (abs_diff imgs decoded) (\<lambda>rec_loss.
     bind_err (weighted_sum (perceptual_loss_factor s) (rec_loss_factor s) perceptual_loss rec_loss)
       (\<lambda>t. Inr (tensor_mean (concat t))))"

text \<open>The first part of \<^verbatim>\<open>step\<close> (lines 114 to 146): the forward passes and the two losses.\<close>

definition step_losses ::
  "('p, 'g, 'm, 'f) collab \<Rightarrow> ('p, 'g, 'm, 'f) trainer \<Rightarrow> batch
     \<Rightarrow> error + (batch \<times> real \<times> real)" where
  "step_losses env s imgs =
     bind_err (vqgan env (vq_params s) imgs) (\<lambda>(decoded_images, q_loss).
     bind_err (perceptual env imgs decoded_images) (\<lambda>perceptual_loss.
     bind_err (perceptual_rec_loss s perceptual_loss imgs decoded_images) (\<lambda>prl.
     bind_err (discriminator env (disc_params s) imgs) (\<lambda>disc_real.
     bind_err (discriminator env (disc_params s) decoded_images) (\<lambda>disc_fake.
     let g_loss = - tensor_mean disc_fake in
     bind_err (grad_norms env s imgs) (\<lambda>(rec_grad, adv_grad).
     let lam = calculate_lambda (ratio_by_zero env) rec_grad adv_grad;
         vq_loss = prl + q_loss + gate_factor s * lam * g_loss;
         d_loss_real = tensor_mean (map (\<lambda>x. relu (1 - x)) disc_real);
         d_loss_fake = tensor_mean (map (\<lambda>x. relu (1 + x)) disc_fake);
         gan_loss = gate_factor s * 0.5 * (d_loss_real + d_loss_fake)
     in Inr (decoded_images, vq_loss, gan_loss)))))))"

text \<open>
  The second part of \<^verbatim>\<open>step\<close> (lines 151 to 162): two backward passes, then the two
  optimizer updates. The result is the outcome together with the trainer as the step
  leaves it, also when it raises.
\<close>

definition backpropagate ::
  "('p, 'g, 'm, 'f) collab \<Rightarrow> ('p, 'g, 'm, 'f) trainer \<Rightarrow> batch
     \<Rightarrow> (error + unit) \<times> ('p, 'g, 'm, 'f) trainer" where
  "backpropagate env s imgs =
     (let s1 = s\<lparr>vq_grads := zero_grad env (vq_grads s)\<rparr> in
      case backward_vq env s1 imgs of
        Inl e \<Rightarrow> (Inl e, s1)
      | Inr (gv, gd) \<Rightarrow>
     (let s2 = s1\<lparr>vq_grads := gv, disc_grads := zero_grad env gd\<rparr> in
      case backward_gan env s2 imgs of
        Inl e \<Rightarrow> (Inl e, s2)
      | Inr (gv', gd') \<Rightarrow>
     (let s3 = s2\<lparr>vq_grads := gv', disc_grads := gd'\<rparr> in
      case adam_step env (vq_params s3) (vq_grads s3) (opt_vq_state s3) of
        Inl e \<Rightarrow> (Inl e, s3)
      | Inr (p, m) \<Rightarrow>
     (let s4 = s3\<lparr>vq_params := p, opt_vq_state := m\<rparr> in
      case adam_step env (disc_params s4) (disc_grads s4) (opt_disc_state s4) of
        Inl e \<Rightarrow> (Inl e, s4)
      | Inr (p', m') \<Rightarrow> (Inr (), s4\<lparr>disc_params := p', opt_disc_state := m'\<rparr>)))))"

definition step ::
  "('p, 'g, 'm, 'f) collab \<Rightarrow> ('p, 'g, 'm, 'f) trainer \<Rightarrow> batch
     \<Rightarrow> (error + (batch \<times> real \<times> real)) \<times> ('p, 'g, 'm, 'f) trainer" where
  "step env s imgs =
     (case step_losses env s imgs of
        Inl e \<Rightarrow> (Inl e, s)
      | Inr losses \<Rightarrow>
          (case backpropagate env s imgs of
             (Inl e, s') \<Rightarrow> (Inl e, s')
           | (Inr _, s') \<Rightarrow> (Inr losses, s')))"

section \<open>Paths and output\<close>

text \<open>\<^verbatim>\<open>os.path.join\<close> on a POSIX system, and the decimal form of an index in an f-string.\<close>

definition join2 :: "string \<Rightarrow> string \<Rightarrow> string" where
  "join2 path b =
     (if b \<noteq> [] \<and> hd b = CHR ''/'' then b
      else if path = [] \<or> last path = CHR ''/'' then path @ b
      else path @ ''/'' @ b)"

definition os_path_join :: "string \<Rightarrow> string list \<Rightarrow> string" where
  "os_path_join a ps = foldl join2 a ps"

definition digit :: "nat \<Rightarrow> char" where
  "digit d = char_of (48 + d)"

fun str_nat :: "nat \<Rightarrow> string" where
  "str_nat n = (if n < 10 then [digit n] else str_nat (n div 10) @ [digit (n mod 10)])"

text \<open>
  What a run leaves outside the trainer, in order: the images of
  \<^verbatim>\<open>torchvision.utils.save_image\<close> (path, tensor, \<^verbatim>\<open>nrow\<close>), the progress lines (epoch
  shown, epochs, batch index, batches, the two losses), the checkpoints of
  \<^verbatim>\<open>torch.save\<close> (path, generator parameters) and the movie of \<^verbatim>\<open>imageio.mimsave\<close>
  (path, frames, \<^verbatim>\<open>fps\<close>).
\<close>

datatype ('p, 'f) artifact =
    SaveImage string batch nat
  | PrintLine nat nat nat nat real real
  | TorchSave string 'p
  | MimSave string "'f list" nat

definition image_path :: "string \<Rightarrow> nat \<Rightarrow> nat \<Rightarrow> string" where
  "image_path dir epoch index =
     os_path_join dir [''reconstructed_imgs'',
       ''epoch-'' @ str_nat epoch @ ''_step-'' @ str_nat index @ ''.jpg'']"

definition checkpoint_path :: "string \<Rightarrow> nat \<Rightarrow> string" where
  "checkpoint_path dir epoch = os_path_join dir [''vqgan_epoch_'' @ str_nat epoch @ ''.pt'']"

section \<open>The run driver\<close>

text \<open>
  The state of a run: the error that ended it, if one did, the trainer, and the output
  so far.
\<close>

type_synonym ('p, 'g, 'm, 'f) run =
  "error option \<times> ('p, 'g, 'm, 'f) trainer \<times> ('p, 'f) artifact list"

text \<open>
  The checkpoint block of \<^verbatim>\<open>train\<close> (lines 221 to 238), entered when
  \<^verbatim>\<open>index % 100 == 0\<close>.
\<close>

definition save_model ::
  "('p, 'g, 'm, 'f) collab \<Rightarrow> nat \<Rightarrow> ('p, 'g, 'm, 'f) trainer \<Rightarrow> ('p, 'f) artifact list
     \<Rightarrow> ('p, 'g, 'm, 'f) run" where
  "save_model env epoch s outs =
     (let path = checkpoint_path (expriment_save_dir s) epoch in
      if io_fails env path then (Some IOError, s, outs)
      else
        (let outs1 = outs @ [TorchSave path (vq_params s)] in
         if io_fails env ''movie.gif'' then (Some IOError, s, outs1)
         else (None, s, outs1 @ [MimSave ''movie.gif'' (gif_images s) 5])))"

text \<open>
  The visualization block of \<^verbatim>\<open>train\<close> (lines 184 to 238), entered when
  \<^verbatim>\<open>index % self.save_every == 0\<close>.
\<close>

definition visualize ::
  "('p, 'g, 'm, 'f) collab \<Rightarrow> nat \<Rightarrow> nat \<Rightarrow> nat \<Rightarrow> nat \<Rightarrow> batch \<Rightarrow> batch \<Rightarrow> real \<Rightarrow> real
     \<Rightarrow> ('p, 'g, 'm, 'f) trainer \<Rightarrow> ('p, 'f) artifact list \<Rightarrow> ('p, 'g, 'm, 'f) run" where
  "visualize env epochs n epoch index imgs decoded_images vq_loss gan_loss s outs =
     (let sb = (case sample_batch s of None \<Rightarrow> take 1 imgs | Some b \<Rightarrow> b);
          s1 = s\<lparr>sample_batch := Some sb\<rparr> in
      case vqgan env (vq_params s1) sb of
        Inl e \<Rightarrow> (Some e, s1, outs)
      | Inr (decoded_sample, q) \<Rightarrow>
     (case make_grid env (sb @ decoded_sample) of
        Inl e \<Rightarrow> (Some e, s1, outs)
      | Inr frame \<Rightarrow>
     (let s2 = s1\<lparr>gif_images := gif_images s1 @ [frame]\<rparr>;
          real_fake_images = take 4 imgs @ take 4 decoded_images;
          path = image_path (expriment_save_dir s2) epoch index in
      if io_fails env path then (Some IOError, s2, outs)
      else
        (let outs1 = outs @ [SaveImage path real_fake_images 4,
                           PrintLine (epoch + 1) epochs index n vq_loss gan_loss] in
         if int index mod 100 = 0 then save_model env epoch s2 outs1
         else (None, s2, outs1)))))"

text \<open>
  The body of the inner loop of \<^verbatim>\<open>train\<close> (lines 176 to 238) for the batch
  \<^verbatim>\<open>imgs\<close> at position \<^verbatim>\<open>index\<close> of epoch \<^verbatim>\<open>epoch\<close> (the move of the batch to the
  device is the identity here). Python's \<^verbatim>\<open>%\<close> raises on a
  zero modulus and otherwise takes the sign of the modulus, as \<open>mod\<close> on \<open>int\<close> does.
\<close>

definition train_iter ::
  "('p, 'g, 'm, 'f) collab \<Rightarrow> nat \<Rightarrow> nat \<Rightarrow> nat \<Rightarrow> nat \<Rightarrow> batch
     \<Rightarrow> ('p, 'g, 'm, 'f) trainer \<Rightarrow> ('p, 'f) artifact list \<Rightarrow> ('p, 'g, 'm, 'f) run" where
  "train_iter env epochs n epoch index imgs s outs =
     (case step env s imgs of
        (Inl e, s') \<Rightarrow> (Some e, s', outs)
      | (Inr (decoded_images, vq_loss, gan_loss), s') \<Rightarrow>
     (let s1 = s'\<lparr>global_step := global_step s' + 1\<rparr> in
      if save_every s1 = 0 then (Some ZeroDivisionError, s1, outs)
      else if int index mod save_every s1 = 0
      then visualize env epochs n epoch index imgs decoded_images vq_loss gan_loss s1 outs
      else (None, s1, outs)))"

text \<open>
  The inner loop, \<^verbatim>\<open>for index, imgs in enumerate(dataloader)\<close>, from position
  \<^verbatim>\<open>index\<close> on; an error ends the run.
\<close>

fun train_batches ::
  "('p, 'g, 'm, 'f) collab \<Rightarrow> nat \<Rightarrow> nat \<Rightarrow> nat \<Rightarrow> nat \<Rightarrow> batch list
     \<Rightarrow> ('p, 'g, 'm, 'f) trainer \<Rightarrow> ('p, 'f) artifact list \<Rightarrow> ('p, 'g, 'm, 'f) run" where
  "train_batches env epochs n epoch index [] s outs = (None, s, outs)"
| "train_batches env epochs n epoch index (imgs # rest) s outs =
     (case train_iter env epochs n epoch index imgs s outs of
        (Some e, s', outs') \<Rightarrow> (Some e, s', outs')
      | (None, s', outs') \<Rightarrow> train_batches env epochs n epoch (Suc index) rest s' outs')"

text \<open>
  The outer loop, \<^verbatim>\<open>for epoch in range(epochs)\<close>. The data loader is iterated anew in
  each epoch: \<open>dataloader epoch\<close> is the list of batches it yields then.
\<close>

fun train_epochs ::
  "('p, 'g, 'm, 'f) collab \<Rightarrow> nat \<Rightarrow> (nat \<Rightarrow> batch list) \<Rightarrow> nat list
     \<Rightarrow> ('p, 'g, 'm, 'f) trainer \<Rightarrow> ('p, 'f) artifact list \<Rightarrow> ('p, 'g, 'm, 'f) run" where
  "train_epochs env epochs dataloader [] s outs = (None, s, outs)"
| "train_epochs env epochs dataloader (epoch # es) s outs =
     (case train_batches env epochs (length (dataloader epoch)) epoch 0 (dataloader epoch) s outs of
        (Some e, s', outs') \<Rightarrow> (Some e, s', outs')
      | (None, s', outs') \<Rightarrow> train_epochs env epochs dataloader es s' outs')"

definition train ::
  "('p, 'g, 'm, 'f) collab \<Rightarrow> ('p, 'g, 'm, 'f) trainer \<Rightarrow> nat \<Rightarrow> (nat \<Rightarrow> batch list)
     \<Rightarrow> ('p, 'g, 'm, 'f) run" where
  "train env s epochs dataloader = train_epochs env epochs dataloader [0..<epochs] s []"

section \<open>The order of the batches of a run\<close>

text \<open>
  The two nested loops visit the batches in one sequence: each entry is the epoch, the
  number of batches of that epoch, the position in the epoch and the batch.
  \<open>run_schedule\<close> runs the loop body along such a sequence.
\<close>

definition batches_of :: "nat \<Rightarrow> nat \<Rightarrow> nat \<Rightarrow> batch list \<Rightarrow> (nat \<times> nat \<times> nat \<times> batch) list" where
  "batches_of epoch n start bs = map (\<lambda>(index, imgs). (epoch, n, index, imgs)) (enumerate start bs)"

definition schedule :: "nat \<Rightarrow> (nat \<Rightarrow> batch list) \<Rightarrow> (nat \<times> nat \<times> nat \<times> batch) list" where
  "schedule epochs dataloader =
     concat (map (\<lambda>epoch. batches_of epoch (length (dataloader epoch)) 0 (dataloader epoch))
       [0..<epochs])"

fun run_schedule ::
  "('p, 'g, 'm, 'f) collab \<Rightarrow> nat \<Rightarrow> (nat \<times> nat \<times> nat \<times> batch) list
     \<Rightarrow> ('p, 'g, 'm, 'f) trainer \<Rightarrow> ('p, 'f) artifact list \<Rightarrow> ('p, 'g, 'm, 'f) run" where
  "run_schedule env epochs [] s outs = (None, s, outs)"
| "run_schedule env epochs ((epoch, n, index, imgs) # rest) s outs =
     (case train_iter env epochs n epoch index imgs s outs of
        (Some e, s', outs') \<Rightarrow> (Some e, s', outs')
      | (None, s', outs') \<Rightarrow> run_schedule env epochs rest s' outs')"

text \<open>
  The run after its first \<open>k\<close> batches: the outcome, the trainer and the output at that
  point. A run that raised before stays as the raise left it.
\<close>

definition progress ::
  "('p, 'g, 'm, 'f) collab \<Rightarrow> nat \<Rightarrow> (nat \<Rightarrow> batch list) \<Rightarrow> ('p, 'g, 'm, 'f) trainer \<Rightarrow> nat
     \<Rightarrow> ('p, 'g, 'm, 'f) run" where
  "progress env epochs dataloader s k =
     run_schedule env epochs (take k (schedule epochs dataloader)) s []"

section \<open>Reading the output of a run\<close>

fun checkpoint_paths :: "('p, 'f) artifact list \<Rightarrow> string list" where
  "checkpoint_paths [] = []"
| "checkpoint_paths (TorchSave path p # xs) = path # checkpoint_paths xs"
| "checkpoint_paths (x # xs) = checkpoint_paths xs"

fun saved_images :: "('p, 'f) artifact list \<Rightarrow> (string \<times> batch \<times> nat) list" where
  "saved_images [] = []"
| "saved_images (SaveImage path t nrow # xs) = (path, t, nrow) # saved_images xs"
| "saved_images (x # xs) = saved_images xs"

text \<open>
  The checkpoint cadence in the words of the spec, section 9: "checkpoint only on
  batches that are multiples of save_every AND where that cadence-occurrence-count is
  itself a multiple of 100". The occurrence count of a batch on the cadence is its
  index divided by \<^verbatim>\<open>save_every\<close>.
\<close>

definition spec_nested_cadence :: "int \<Rightarrow> nat \<Rightarrow> bool" where
  "spec_nested_cadence every index =
     (int index mod every = 0 \<and> (int index div every) mod 100 = 0)"

section \<open>Collaborators for concrete runs\<close>

text \<open>
  A generator that reconstructs its input with no quantization loss, a perceptual
  distance of zero, a discriminator that scores every sample 1, and optimizers that
  count their updates.
\<close>

definition stub_env :: "(nat, nat, nat, nat) collab" where
  "stub_env =
     \<lparr> vqgan = (\<lambda>p imgs. Inr (imgs, 0)),
       perceptual = (\<lambda>a b. Inr (map (\<lambda>x. 0) a)),
       discriminator = (\<lambda>p b. Inr (map (\<lambda>x. 1) b)),
       grad_norms = (\<lambda>s b. Inr (3, 0)),
       ratio_by_zero = 0,
       zero_grad = (\<lambda>g. 0),
       backward_vq = (\<lambda>s b. Inr (vq_grads s + 1, disc_grads s + 1)),
       backward_gan = (\<lambda>s b. Inr (vq_grads s + 1, disc_grads s + 1)),
       adam_step = (\<lambda>p g m. Inr (p + g, m + 1)),
       make_grid = (\<lambda>b. Inr (length b)),
       io_fails = (\<lambda>path. False),
       new_discriminator = 0,
       new_grads = 0,
       new_adam = 0 \<rparr>"

definition stub_trainer :: "int \<Rightarrow> (nat, nat, nat, nat) trainer" where
  "stub_trainer every = init stub_env 1 1 100 1 1 every ''exp''"

text \<open>The same, with a discriminator whose optimizer update raises.\<close>

definition failing_env :: "(nat, nat, nat, nat) collab" where
  "failing_env =
     stub_env\<lparr> adam_step := (\<lambda>p g m. if p = 7 then Inl CollaboratorError else Inr (p + g, m + 1)),
               new_discriminator := 7 \<rparr>"

definition failing_trainer :: "(nat, nat, nat, nat) trainer" where
  "failing_trainer = init failing_env 1 1 100 1 1 100 ''exp''"

text \<open>The same as the first, with a perceptual scorer that raises.\<close>

definition unscored_env :: "(nat, nat, nat, nat) collab" where
  "unscored_env = stub_env\<lparr> perceptual := (\<lambda>a b. Inl CollaboratorError) \<rparr>"

text \<open>Data loaders: one batch of a single image; three batches in each epoch.\<close>

definition one_small_batch :: "nat \<Rightarrow> batch list" where
  "one_small_batch epoch = [[[1, 2]]]"

definition three_batches :: "nat \<Rightarrow> batch list" where
  "three_batches epoch = [[[1, 2]], [[3]], [[4]]]"

section \<open>Auxiliary facts\<close>

lemmas stub_defs = stub_env_def stub_trainer_def init_def

lemmas step_defs = step_def step_losses_def bind_err_def perceptual_rec_loss_def abs_diff_def
  weighted_sum_def tensor_mean_def gate_factor_def adopt_weight_def calculate_lambda_def
  clamp_def ratio_def relu_def backpropagate_def

lemma bind_err_Inr: "bind_err r f = Inr y \<longleftrightarrow> (\<exists>x. r = Inr x \<and> f x = Inr y)"
  by (cases r) (simp_all add: bind_err_def)

lemma step_losses_Inr:
  assumes "step_losses env s imgs = Inr (d, vq, gan)"
  shows "\<exists>q_loss ps prl disc_real disc_fake rg ag.
     vqgan env (vq_params s) imgs = Inr (d, q_loss) \<and>
     perceptual env imgs d = Inr ps \<and>
     perceptual_rec_loss s ps imgs d = Inr prl \<and>
     discriminator env (disc_params s) imgs = Inr disc_real \<and>
     discriminator env (disc_params s) d = Inr disc_fake \<and>
     grad_norms env s imgs = Inr (rg, ag) \<and>
     vq = prl + q_loss
            + gate_factor s * calculate_lambda (ratio_by_zero env) rg ag * (- tensor_mean disc_fake) \<and>
     gan = gate_factor s * 0.5 *
            (tensor_mean (map (\<lambda>x. relu (1 - x)) disc_real)
               + tensor_mean (map (\<lambda>x. relu (1 + x)) disc_fake))"
  using assms unfolding step_losses_def
  by (auto simp: bind_err_Inr Let_def split: prod.splits)

lemma step_Inr:
  "step env s imgs = (Inr r, s') \<Longrightarrow> step_losses env s imgs = Inr r"
  by (auto simp: step_def split: sum.splits prod.splits)

lemma perceptual_rec_loss_Inr:
  "perceptual_rec_loss s ps imgs d = Inr prl \<longleftrightarrow>
    (map length imgs = map length d \<and> length ps = length imgs \<and>
     prl = tensor_mean (concat (map2 (\<lambda>p row. map (\<lambda>r.
              perceptual_loss_factor s * p + rec_loss_factor s * r) row) ps
        (map2 (map2 (\<lambda>x y. \<bar>x - y\<bar>)) imgs d))))"
proof -
  have len: "map length imgs = map length d \<Longrightarrow> length d = length imgs"
    using length_map by metis
  show ?thesis
    unfolding perceptual_rec_loss_def abs_diff_def weighted_sum_def bind_err_def
    by (auto simp: len)
qed

lemma sum_list_zeros: "\<forall>x\<in>set xs. x = (0::real) \<Longrightarrow> sum_list xs = 0"
  by (induction xs) simp_all

lemma tensor_mean_zeros: "\<forall>x\<in>set xs. x = 0 \<Longrightarrow> tensor_mean xs = 0"
  by (simp add: tensor_mean_def sum_list_zeros)

lemma weighted_zeros:
  assumes "\<forall>p\<in>set ps. p = 0" and "\<forall>row\<in>set rec. \<forall>r\<in>set row. r = 0"
  shows "\<forall>x\<in>set (concat (map2 (\<lambda>p row. map (\<lambda>r. a * p + b * r) row) ps rec)). x = (0::real)"
proof
  fix x assume "x \<in> set (concat (map2 (\<lambda>p row. map (\<lambda>r. a * p + b * r) row) ps rec))"
  then obtain p row r where "(p, row) \<in> set (zip ps rec)" "r \<in> set row" "x = a * p + b * r"
    by auto
  moreover from this have "p \<in> set ps" "row \<in> set rec"
    by (auto dest: set_zip_leftD set_zip_rightD)
  ultimately show "x = 0" using assms by auto
qed

lemma backpropagate_params:
  assumes "backpropagate env s imgs = (r, s')"
    and "(\<exists>e. backward_vq env (s\<lparr>vq_grads := zero_grad env (vq_grads s)\<rparr>) imgs = Inl e) \<or>
         (\<exists>gv gd e.
            backward_vq env (s\<lparr>vq_grads := zero_grad env (vq_grads s)\<rparr>) imgs = Inr (gv, gd) \<and>
            backward_gan env (s\<lparr>vq_grads := gv, disc_grads := zero_grad env gd\<rparr>) imgs = Inl e)"
  shows "(\<exists>e. r = Inl e) \<and> vq_params s' = vq_params s \<and> disc_params s' = disc_params s \<and>
     opt_vq_state s' = opt_vq_state s \<and> opt_disc_state s' = opt_disc_state s"
  using assms unfolding backpropagate_def
  by (auto simp: Let_def split: sum.splits prod.splits)

section \<open>The losses of the optimization step\<close>

text \<open>
  Claim C1. Whenever the optimization step returns, its generator loss is the
  reconstruction-perceptual loss plus the quantization loss plus gate factor times
  lambda times the generator adversarial loss. The reconstruction-perceptual loss is
  the mean over all values of perceptual_loss_factor times the perceptual distance of
  the sample plus rec_loss_factor times the absolute reconstruction error, and the
  generator adversarial loss is minus the mean of the discriminator's scores of the
  reconstruction. When the quantization loss, the perceptual distances, the
  reconstruction errors and the gate factor are all zero, the generator loss is zero
  (for tensors that are not empty).
\<close>

theorem step_generator_loss:
  assumes "step env s imgs = (Inr (decoded, vq_loss, gan_loss), s')"
  shows "\<exists>q_loss perceptual_loss rec_loss disc_fake rec_grad adv_grad.
     vqgan env (vq_params s) imgs = Inr (decoded, q_loss) \<and>
     perceptual env imgs decoded = Inr perceptual_loss \<and>
     rec_loss = map2 (map2 (\<lambda>x y. \<bar>x - y\<bar>)) imgs decoded \<and>
     discriminator env (disc_params s) decoded = Inr disc_fake \<and>
     grad_norms env s imgs = Inr (rec_grad, adv_grad) \<and>
     vq_loss =
       tensor_mean (concat (map2 (\<lambda>p row. map (\<lambda>r.
           perceptual_loss_factor s * p + rec_loss_factor s * r) row) perceptual_loss rec_loss))
       + q_loss
       + gate_factor s * calculate_lambda (ratio_by_zero env) rec_grad adv_grad
           * (- tensor_mean disc_fake) \<and>
     (concat rec_loss \<noteq> [] \<and> disc_fake \<noteq> [] \<and>
      q_loss = 0 \<and> (\<forall>p\<in>set perceptual_loss. p = 0) \<and>
      (\<forall>row\<in>set rec_loss. \<forall>r\<in>set row. r = 0) \<and> gate_factor s = 0 \<longrightarrow> vq_loss = 0)"
proof -
  from assms have "step_losses env s imgs = Inr (decoded, vq_loss, gan_loss)"
    by (rule step_Inr)
  then obtain q_loss ps prl disc_fake rg ag where
    v: "vqgan env (vq_params s) imgs = Inr (decoded, q_loss)" and
    p: "perceptual env imgs decoded = Inr ps" and
    prl: "perceptual_rec_loss s ps imgs decoded = Inr prl" and
    d: "discriminator env (disc_params s) decoded = Inr disc_fake" and
    g: "grad_norms env s imgs = Inr (rg, ag)" and
    vq: "vq_loss = prl + q_loss
           + gate_factor s * calculate_lambda (ratio_by_zero env) rg ag * (- tensor_mean disc_fake)"
    using step_losses_Inr by blast
  define rec_loss where "rec_loss = map2 (map2 (\<lambda>x y. \<bar>x - y\<bar>)) imgs decoded"
  from prl have prl_eq: "prl = tensor_mean (concat (map2 (\<lambda>p row. map (\<lambda>r.
           perceptual_loss_factor s * p + rec_loss_factor s * r) row) ps rec_loss))"
    by (simp add: perceptual_rec_loss_Inr rec_loss_def)
  have zero: "vq_loss = 0"
    if "q_loss = 0" "\<forall>p\<in>set ps. p = 0" "\<forall>row\<in>set rec_loss. \<forall>r\<in>set row. r = 0"
      "gate_factor s = 0"
  proof -
    have "prl = 0"
      unfolding prl_eq by (rule tensor_mean_zeros, rule weighted_zeros) (use that in auto)
    with that vq show ?thesis by simp
  qed
  show ?thesis
    using v p d g vq prl_eq zero rec_loss_def by blast
qed

theorem step_generator_loss_witness:
  "step stub_env (stub_trainer 100) [[1, 2], [3, 4]] =
     (Inr ([[1, 2], [3, 4]], 0, 0),
      (stub_trainer 100)\<lparr>vq_params := 3, disc_params := 1, vq_grads := 2, disc_grads := 1,
         opt_vq_state := 1, opt_disc_state := 1\<rparr>) \<and>
   (\<exists>q_loss perceptual_loss rec_loss disc_fake.
      vqgan stub_env (vq_params (stub_trainer 100)) [[1, 2], [3, 4]]
        = Inr ([[1, 2], [3, 4]], q_loss) \<and>
      perceptual stub_env [[1, 2], [3, 4]] [[1, 2], [3, 4]] = Inr perceptual_loss \<and>
      rec_loss = map2 (map2 (\<lambda>x y. \<bar>x - y\<bar>)) [[1, 2], [3, 4::real]] [[1, 2], [3, 4]] \<and>
      discriminator stub_env (disc_params (stub_trainer 100)) [[1, 2], [3, 4]] = Inr disc_fake \<and>
      concat rec_loss \<noteq> [] \<and> disc_fake \<noteq> [] \<and>
      q_loss = 0 \<and> (\<forall>p\<in>set perceptual_loss. p = 0) \<and>
      (\<forall>row\<in>set rec_loss. \<forall>r\<in>set row. r = 0) \<and> gate_factor (stub_trainer 100) = 0)"
proof -
  have h: "step stub_env (stub_trainer 100) [[1, 2], [3, 4]] =
     (Inr ([[1, 2], [3, 4]], 0, 0),
      (stub_trainer 100)\<lparr>vq_params := 3, disc_params := 1, vq_grads := 2, disc_grads := 1,
         opt_vq_state := 1, opt_disc_state := 1\<rparr>)"
    by (simp add: stub_defs step_defs)
  from step_generator_loss [OF h] show ?thesis
    using h by (simp add: stub_defs gate_factor_def adopt_weight_def)
qed

text \<open>
  Claim C2. Whenever the optimization step returns, its discriminator loss is the gate
  factor times one half times the sum of the mean of relu(1 - score) over the scores
  of the real batch and the mean of relu(1 + score) over the scores of the
  reconstruction. When the gate factor is zero, the discriminator loss is zero, whatever
  the scores (of tensors that are not empty).
\<close>

theorem step_discriminator_loss:
  assumes "step env s imgs = (Inr (decoded, vq_loss, gan_loss), s')"
  shows "\<exists>disc_real disc_fake.
     discriminator env (disc_params s) imgs = Inr disc_real \<and>
     discriminator env (disc_params s) decoded = Inr disc_fake \<and>
     gan_loss = gate_factor s * 0.5 *
       (tensor_mean (map (\<lambda>x. relu (1 - x)) disc_real)
          + tensor_mean (map (\<lambda>x. relu (1 + x)) disc_fake)) \<and>
     (disc_real \<noteq> [] \<and> disc_fake \<noteq> [] \<and> gate_factor s = 0 \<longrightarrow> gan_loss = 0)"
proof -
  from assms have "step_losses env s imgs = Inr (decoded, vq_loss, gan_loss)"
    by (rule step_Inr)
  then obtain disc_real disc_fake where
    "discriminator env (disc_params s) imgs = Inr disc_real"
    "discriminator env (disc_params s) decoded = Inr disc_fake"
    "gan_loss = gate_factor s * 0.5 *
       (tensor_mean (map (\<lambda>x. relu (1 - x)) disc_real)
          + tensor_mean (map (\<lambda>x. relu (1 + x)) disc_fake))"
    using step_losses_Inr by blast
  then show ?thesis by auto
qed

theorem step_discriminator_loss_witness:
  "step stub_env (stub_trainer 100) [[5]] =
     (Inr ([[5]], 0, 0),
      (stub_trainer 100)\<lparr>vq_params := 3, disc_params := 1, vq_grads := 2, disc_grads := 1,
         opt_vq_state := 1, opt_disc_state := 1\<rparr>) \<and>
   gate_factor (stub_trainer 100) = 0 \<and>
   discriminator stub_env (disc_params (stub_trainer 100)) [[5]] = Inr [1] \<and>
   [1::real] \<noteq> []"
proof -
  have h: "step stub_env (stub_trainer 100) [[5]] =
     (Inr ([[5]], 0, 0),
      (stub_trainer 100)\<lparr>vq_params := 3, disc_params := 1, vq_grads := 2, disc_grads := 1,
         opt_vq_state := 1, opt_disc_state := 1\<rparr>)"
    by (simp add: stub_defs step_defs)
  from step_discriminator_loss [OF h] show ?thesis
    using h by (simp add: stub_defs gate_factor_def adopt_weight_def)
qed

section \<open>The gate factor and the balancing coefficient\<close>

text \<open>
  Claim C3. The gate factor of the optimization step is zero while the global step
  counter is below disc_start and is the configured disc_factor from disc_start on; at
  the counter value disc_start itself it is already disc_factor, so nonzero for a
  nonzero disc_factor.
\<close>

theorem gate_factor_hard_step:
  "(global_step s < disc_start s \<longrightarrow> gate_factor s = 0) \<and>
   (disc_start s \<le> global_step s \<longrightarrow> gate_factor s = disc_factor s) \<and>
   (global_step s = disc_start s \<and> disc_factor s \<noteq> 0 \<longrightarrow> gate_factor s \<noteq> 0)"
  by (simp add: gate_factor_def adopt_weight_def)

theorem gate_factor_hard_step_witness:
  "global_step (stub_trainer 100) < disc_start (stub_trainer 100) \<and>
   gate_factor (stub_trainer 100) = 0 \<and>
   global_step ((stub_trainer 100)\<lparr>global_step := 100\<rparr>) = disc_start (stub_trainer 100) \<and>
   disc_factor (stub_trainer 100) \<noteq> 0 \<and>
   gate_factor ((stub_trainer 100)\<lparr>global_step := 100\<rparr>) = 1"
  using gate_factor_hard_step [of "stub_trainer 100"]
    gate_factor_hard_step [of "(stub_trainer 100)\<lparr>global_step := 100\<rparr>"]
  by (simp add: stub_defs)

text \<open>
  Claim C9. For all gradient magnitudes, a zero magnitude in either place included,
  the balancing coefficient that the helper returns lies between 0 and 10000.
\<close>

theorem calculate_lambda_bounds:
  "0 \<le> calculate_lambda by_zero rec_grad_norm adv_grad_norm \<and>
   calculate_lambda by_zero rec_grad_norm adv_grad_norm \<le> 10000"
  by (simp add: calculate_lambda_def clamp_def)

section \<open>Failure of the optimization step\<close>

text \<open>
  Claim C7, as the code has it. Both optimizer updates come after both backward passes:
  when the forward passes, the losses or either backward pass raise, the step raises and
  leaves the parameters of both models and the moments of both optimizers as they were.
\<close>

theorem step_failure_before_updates:
  assumes "step env s imgs = (r, s')"
    and "(\<exists>e. step_losses env s imgs = Inl e) \<or>
         (\<exists>e. backward_vq env (s\<lparr>vq_grads := zero_grad env (vq_grads s)\<rparr>) imgs = Inl e) \<or>
         (\<exists>gv gd e.
            backward_vq env (s\<lparr>vq_grads := zero_grad env (vq_grads s)\<rparr>) imgs = Inr (gv, gd) \<and>
            backward_gan env (s\<lparr>vq_grads := gv, disc_grads := zero_grad env gd\<rparr>) imgs = Inl e)"
  shows "(\<exists>e. r = Inl e) \<and> vq_params s' = vq_params s \<and> disc_params s' = disc_params s \<and>
     opt_vq_state s' = opt_vq_state s \<and> opt_disc_state s' = opt_disc_state s"
proof (cases "step_losses env s imgs")
  case (Inl e)
  then have "step env s imgs = (Inl e, s)" by (simp add: step_def)
  with assms(1) have "r = Inl e" "s' = s" by simp_all
  then show ?thesis by simp
next
  case (Inr losses)
  obtain r' s'' where b: "backpropagate env s imgs = (r', s'')"
    by (cases "backpropagate env s imgs")
  from Inr assms(2) have "(\<exists>e. backward_vq env (s\<lparr>vq_grads := zero_grad env (vq_grads s)\<rparr>) imgs = Inl e) \<or>
         (\<exists>gv gd e.
            backward_vq env (s\<lparr>vq_grads := zero_grad env (vq_grads s)\<rparr>) imgs = Inr (gv, gd) \<and>
            backward_gan env (s\<lparr>vq_grads := gv, disc_grads := zero_grad env gd\<rparr>) imgs = Inl e)"
    by auto
  from backpropagate_params [OF b this] assms(1) Inr b show ?thesis
    by (auto simp: step_def)
qed

theorem step_failure_before_updates_witness:
  "step unscored_env (stub_trainer 100) [[5]] = (Inl CollaboratorError, stub_trainer 100) \<and>
   step_losses unscored_env (stub_trainer 100) [[5]] = Inl CollaboratorError"
proof -
  have l: "step_losses unscored_env (stub_trainer 100) [[5]] = Inl CollaboratorError"
    by (simp add: unscored_env_def stub_defs step_defs)
  obtain r s' where h: "step unscored_env (stub_trainer 100) [[5]] = (r, s')"
    by (cases "step unscored_env (stub_trainer 100) [[5]]")
  from step_failure_before_updates [OF h] l have "\<exists>e. r = Inl e" by blast
  with h l show ?thesis by (auto simp: step_def)
qed

text \<open>
  Claim C7 as stated fails: when the update of the discriminator's optimizer raises,
  the step raises after the generator's update has been applied.
\<close>

theorem step_not_atomic_counterexample:
  "fst (step failing_env failing_trainer [[1, 2]]) = Inl CollaboratorError \<and>
   vq_params (snd (step failing_env failing_trainer [[1, 2]])) = 3 \<and>
   vq_params failing_trainer = 1 \<and>
   opt_vq_state (snd (step failing_env failing_trainer [[1, 2]])) = 1 \<and>
   opt_vq_state failing_trainer = 0"
  by (simp add: failing_env_def failing_trainer_def stub_defs step_defs)

section \<open>Facts about the run driver\<close>

subsection \<open>What the step and the two output blocks leave unchanged\<close>

lemma backpropagate_keeps:
  assumes "backpropagate env s imgs = (r, s')"
  shows "global_step s' = global_step s" "sample_batch s' = sample_batch s"
    "gif_images s' = gif_images s" "save_every s' = save_every s"
    "expriment_save_dir s' = expriment_save_dir s"
    "disc_factor s' = disc_factor s" "disc_start s' = disc_start s"
  using assms unfolding backpropagate_def
  by (auto simp: Let_def split: sum.splits prod.splits)

lemma step_keeps:
  assumes "step env s imgs = (r, s')"
  shows "global_step s' = global_step s" "sample_batch s' = sample_batch s"
    "gif_images s' = gif_images s" "save_every s' = save_every s"
    "expriment_save_dir s' = expriment_save_dir s"
    "disc_factor s' = disc_factor s" "disc_start s' = disc_start s"
proof -
  obtain r' s'' where b: "backpropagate env s imgs = (r', s'')"
    by (cases "backpropagate env s imgs")
  from assms have "s' = s \<or> s' = s''"
    by (auto simp: step_def b split: sum.splits)
  with backpropagate_keeps [OF b]
  show "global_step s' = global_step s" "sample_batch s' = sample_batch s"
    "gif_images s' = gif_images s" "save_every s' = save_every s"
    "expriment_save_dir s' = expriment_save_dir s"
    "disc_factor s' = disc_factor s" "disc_start s' = disc_start s"
    by auto
qed

lemma checkpoint_paths_append:
  "checkpoint_paths (xs @ ys) = checkpoint_paths xs @ checkpoint_paths ys"
  by (induction xs rule: checkpoint_paths.induct) simp_all

lemma saved_images_append:
  "saved_images (xs @ ys) = saved_images xs @ saved_images ys"
  by (induction xs rule: saved_images.induct) simp_all

lemma save_model_facts:
  assumes "save_model env epoch s outs = (r, s', outs')"
  shows "s' = s \<and>
    saved_images outs' = saved_images outs \<and>
    checkpoint_paths outs' = checkpoint_paths outs @
       (if io_fails env (checkpoint_path (expriment_save_dir s) epoch) then []
        else [checkpoint_path (expriment_save_dir s) epoch]) \<and>
    (r = None \<longrightarrow> \<not> io_fails env (checkpoint_path (expriment_save_dir s) epoch))"
  using assms unfolding save_model_def
  by (auto simp: Let_def checkpoint_paths_append saved_images_append split: if_splits)

lemma visualize_state:
  assumes "visualize env epochs n epoch index imgs decoded vq gan s outs = (r, s', outs')"
  shows "global_step s' = global_step s \<and> save_every s' = save_every s \<and>
    expriment_save_dir s' = expriment_save_dir s \<and>
    disc_factor s' = disc_factor s \<and> disc_start s' = disc_start s \<and>
    sample_batch s' = Some (case sample_batch s of None \<Rightarrow> take 1 imgs | Some b \<Rightarrow> b)"
  using assms unfolding visualize_def
  by (auto simp: Let_def dest!: save_model_facts split: sum.splits prod.splits if_splits)

lemma visualize_images:
  assumes "visualize env epochs n epoch index imgs decoded vq gan s outs = (r, s', outs')"
  shows "saved_images outs' = saved_images outs \<or>
         saved_images outs' = saved_images outs @
           [(image_path (expriment_save_dir s) epoch index, take 4 imgs @ take 4 decoded, 4)]"
    "r = None \<Longrightarrow> saved_images outs' = saved_images outs @
           [(image_path (expriment_save_dir s) epoch index, take 4 imgs @ take 4 decoded, 4)]"
  using assms unfolding visualize_def
  by (auto simp: Let_def saved_images_append dest!: save_model_facts
      split: sum.splits prod.splits if_splits)

lemma visualize_checkpoints:
  assumes "visualize env epochs n epoch index imgs decoded vq gan s outs = (r, s', outs')"
  shows "checkpoint_paths outs' = checkpoint_paths outs \<or>
         (int index mod 100 = 0 \<and> checkpoint_paths outs' = checkpoint_paths outs @
           [checkpoint_path (expriment_save_dir s) epoch])"
    "r = None \<Longrightarrow> int index mod 100 = 0 \<Longrightarrow> checkpoint_paths outs' = checkpoint_paths outs @
           [checkpoint_path (expriment_save_dir s) epoch]"
    "r = None \<Longrightarrow> int index mod 100 \<noteq> 0 \<Longrightarrow> checkpoint_paths outs' = checkpoint_paths outs"
  using assms unfolding visualize_def
  by (auto simp: Let_def checkpoint_paths_append dest!: save_model_facts
      split: sum.splits prod.splits if_splits)

lemma train_iter_raise:
  "step env s imgs = (Inl e, s1) \<Longrightarrow>
   train_iter env epochs n epoch index imgs s outs = (Some e, s1, outs)"
  by (simp add: train_iter_def)

lemma train_iter_return:
  "step env s imgs = (Inr (decoded, vq, gan), s1) \<Longrightarrow>
   train_iter env epochs n epoch index imgs s outs =
     (if save_every s = 0 then (Some ZeroDivisionError, s1\<lparr>global_step := global_step s + 1\<rparr>, outs)
      else if int index mod save_every s = 0
      then visualize env epochs n epoch index imgs decoded vq gan
             (s1\<lparr>global_step := global_step s + 1\<rparr>) outs
      else (None, s1\<lparr>global_step := global_step s + 1\<rparr>, outs))"
  by (simp add: train_iter_def Let_def step_keeps)

lemma step_cases:
  obtains (raise) e s1 where "step env s imgs = (Inl e, s1)"
  | (return) decoded vq gan s1 where "step env s imgs = (Inr (decoded, vq, gan), s1)"
proof (cases "step env s imgs")
  case (Pair r s1)
  show ?thesis
  proof (cases r)
    case (Inl e)
    with Pair raise show ?thesis by simp
  next
    case (Inr x)
    with Pair return show ?thesis by (cases x) auto
  qed
qed

lemma train_iter_settings:
  assumes "train_iter env epochs n epoch index imgs s outs = (r, s', outs')"
  shows "save_every s' = save_every s" "expriment_save_dir s' = expriment_save_dir s"
    "disc_factor s' = disc_factor s" "disc_start s' = disc_start s"
proof -
  have "save_every s' = save_every s \<and> expriment_save_dir s' = expriment_save_dir s \<and>
    disc_factor s' = disc_factor s \<and> disc_start s' = disc_start s"
  proof (cases rule: step_cases [of env s imgs])
    case (raise e s1)
    from train_iter_raise [OF this] assms step_keeps [OF raise] show ?thesis by auto
  next
    case (return decoded vq gan s1)
    from assms step_keeps [OF return] show ?thesis
      unfolding train_iter_return [OF return]
      by (auto split: if_splits dest!: visualize_state)
  qed
  then show "save_every s' = save_every s" "expriment_save_dir s' = expriment_save_dir s"
    "disc_factor s' = disc_factor s" "disc_start s' = disc_start s"
    by simp_all
qed

lemma train_iter_global_step:
  assumes "train_iter env epochs n epoch index imgs s outs = (r, s', outs')"
  shows "global_step s' = global_step s + (case fst (step env s imgs) of Inl e \<Rightarrow> 0 | Inr x \<Rightarrow> 1)"
    and "r = None \<Longrightarrow> global_step s' = global_step s + 1"
proof -
  have "global_step s' = global_step s + (case fst (step env s imgs) of Inl e \<Rightarrow> 0 | Inr x \<Rightarrow> 1)
    \<and> (r = None \<longrightarrow> global_step s' = global_step s + 1)"
  proof (cases rule: step_cases [of env s imgs])
    case (raise e s1)
    from train_iter_raise [OF this] assms step_keeps [OF raise] raise show ?thesis by auto
  next
    case (return decoded vq gan s1)
    from assms step_keeps [OF return] return show ?thesis
      unfolding train_iter_return [OF return]
      by (auto split: if_splits dest!: visualize_state)
  qed
  then show "global_step s' = global_step s + (case fst (step env s imgs) of Inl e \<Rightarrow> 0 | Inr x \<Rightarrow> 1)"
    and "r = None \<Longrightarrow> global_step s' = global_step s + 1"
    by simp_all
qed

lemma train_iter_sample_batch:
  assumes "train_iter env epochs n epoch index imgs s outs = (r, s', outs')"
  shows "sample_batch s = Some b \<Longrightarrow> sample_batch s' = Some b"
    and "sample_batch s = None \<Longrightarrow> sample_batch s' =
      (if (\<exists>x. fst (step env s imgs) = Inr x) \<and> save_every s \<noteq> 0 \<and> int index mod save_every s = 0
       then Some (take 1 imgs) else None)"
proof -
  have "(sample_batch s = Some b \<longrightarrow> sample_batch s' = Some b) \<and>
    (sample_batch s = None \<longrightarrow> sample_batch s' =
      (if (\<exists>x. fst (step env s imgs) = Inr x) \<and> save_every s \<noteq> 0 \<and> int index mod save_every s = 0
       then Some (take 1 imgs) else None))"
  proof (cases rule: step_cases [of env s imgs])
    case (raise e s1)
    from train_iter_raise [OF this] assms step_keeps [OF raise] raise show ?thesis by auto
  next
    case (return decoded vq gan s1)
    from assms step_keeps [OF return] return show ?thesis
      unfolding train_iter_return [OF return]
      by (auto split: if_splits dest!: visualize_state)
  qed
  then show "sample_batch s = Some b \<Longrightarrow> sample_batch s' = Some b"
    and "sample_batch s = None \<Longrightarrow> sample_batch s' =
      (if (\<exists>x. fst (step env s imgs) = Inr x) \<and> save_every s \<noteq> 0 \<and> int index mod save_every s = 0
       then Some (take 1 imgs) else None)"
    by simp_all
qed

lemma train_iter_None:
  assumes "train_iter env epochs n epoch index imgs s outs = (None, s', outs')"
  shows "save_every s \<noteq> 0" and "\<exists>decoded vq gan s1. step env s imgs = (Inr (decoded, vq, gan), s1)"
proof -
  have "save_every s \<noteq> 0 \<and> (\<exists>decoded vq gan s1. step env s imgs = (Inr (decoded, vq, gan), s1))"
  proof (cases rule: step_cases [of env s imgs])
    case (raise e s1)
    from train_iter_raise [OF this] assms show ?thesis by auto
  next
    case (return decoded vq gan s1)
    from assms return show ?thesis
      unfolding train_iter_return [OF return]
      by (auto split: if_splits)
  qed
  then show "save_every s \<noteq> 0"
    and "\<exists>decoded vq gan s1. step env s imgs = (Inr (decoded, vq, gan), s1)"
    by simp_all
qed

lemma train_iter_checkpoints:
  assumes "train_iter env epochs n epoch index imgs s outs = (r, s', outs')"
  shows "checkpoint_paths outs' = checkpoint_paths outs \<or>
         (save_every s \<noteq> 0 \<and> int index mod save_every s = 0 \<and> int index mod 100 = 0 \<and>
          checkpoint_paths outs' = checkpoint_paths outs @
            [checkpoint_path (expriment_save_dir s) epoch])"
    and "r = None \<Longrightarrow> checkpoint_paths outs' = checkpoint_paths outs @
           (if int index mod save_every s = 0 \<and> int index mod 100 = 0
            then [checkpoint_path (expriment_save_dir s) epoch] else [])"
proof -
  have "(checkpoint_paths outs' = checkpoint_paths outs \<or>
         (save_every s \<noteq> 0 \<and> int index mod save_every s = 0 \<and> int index mod 100 = 0 \<and>
          checkpoint_paths outs' = checkpoint_paths outs @
            [checkpoint_path (expriment_save_dir s) epoch])) \<and>
     (r = None \<longrightarrow> checkpoint_paths outs' = checkpoint_paths outs @
           (if int index mod save_every s = 0 \<and> int index mod 100 = 0
            then [checkpoint_path (expriment_save_dir s) epoch] else []))"
  proof (cases rule: step_cases [of env s imgs])
    case (raise e s1)
    from train_iter_raise [OF this] assms show ?thesis by auto
  next
    case (return decoded vq gan s1)
    let ?s2 = "s1\<lparr>global_step := global_step s + 1\<rparr>"
    have dir: "expriment_save_dir ?s2 = expriment_save_dir s"
      using step_keeps [OF return] by simp
    show ?thesis
    proof (cases "save_every s \<noteq> 0 \<and> int index mod save_every s = 0")
      case True
      with assms have v: "visualize env epochs n epoch index imgs decoded vq gan ?s2 outs
          = (r, s', outs')"
        unfolding train_iter_return [OF return] by simp
      from visualize_checkpoints [OF v] True dir show ?thesis
        by (cases "int index mod 100 = 0") auto
    next
      case False
      with assms show ?thesis
        unfolding train_iter_return [OF return] by (auto split: if_splits)
    qed
  qed
  then show "checkpoint_paths outs' = checkpoint_paths outs \<or>
         (save_every s \<noteq> 0 \<and> int index mod save_every s = 0 \<and> int index mod 100 = 0 \<and>
          checkpoint_paths outs' = checkpoint_paths outs @
            [checkpoint_path (expriment_save_dir s) epoch])"
    and "r = None \<Longrightarrow> checkpoint_paths outs' = checkpoint_paths outs @
           (if int index mod save_every s = 0 \<and> int index mod 100 = 0
            then [checkpoint_path (expriment_save_dir s) epoch] else [])"
    by simp_all
qed

lemma train_iter_images:
  assumes "train_iter env epochs n epoch index imgs s outs = (r, s', outs')"
  shows "saved_images outs' = saved_images outs \<or>
         (save_every s \<noteq> 0 \<and> int index mod save_every s = 0 \<and>
          (\<exists>decoded vq gan s1. step env s imgs = (Inr (decoded, vq, gan), s1) \<and>
            saved_images outs' = saved_images outs @
              [(image_path (expriment_save_dir s) epoch index, take 4 imgs @ take 4 decoded, 4)]))"
    and "r = None \<Longrightarrow> int index mod save_every s \<noteq> 0 \<Longrightarrow> saved_images outs' = saved_images outs"
    and "r = None \<Longrightarrow> int index mod save_every s = 0 \<Longrightarrow>
          \<exists>decoded vq gan s1. step env s imgs = (Inr (decoded, vq, gan), s1) \<and>
            saved_images outs' = saved_images outs @
              [(image_path (expriment_save_dir s) epoch index, take 4 imgs @ take 4 decoded, 4)]"
proof -
  have "(saved_images outs' = saved_images outs \<or>
         (save_every s \<noteq> 0 \<and> int index mod save_every s = 0 \<and>
          (\<exists>decoded vq gan s1. step env s imgs = (Inr (decoded, vq, gan), s1) \<and>
            saved_images outs' = saved_images outs @
              [(image_path (expriment_save_dir s) epoch index, take 4 imgs @ take 4 decoded, 4)]))) \<and>
    (r = None \<longrightarrow> int index mod save_every s \<noteq> 0 \<longrightarrow> saved_images outs' = saved_images outs) \<and>
    (r = None \<longrightarrow> int index mod save_every s = 0 \<longrightarrow>
          (\<exists>decoded vq gan s1. step env s imgs = (Inr (decoded, vq, gan), s1) \<and>
            saved_images outs' = saved_images outs @
              [(image_path (expriment_save_dir s) epoch index, take 4 imgs @ take 4 decoded, 4)]))"
  proof (cases rule: step_cases [of env s imgs])
    case (raise e s1)
    from train_iter_raise [OF this] assms show ?thesis by auto
  next
    case (return decoded vq gan s1)
    let ?s2 = "s1\<lparr>global_step := global_step s + 1\<rparr>"
    have dir: "expriment_save_dir ?s2 = expriment_save_dir s"
      using step_keeps [OF return] by simp
    show ?thesis
    proof (cases "save_every s \<noteq> 0 \<and> int index mod save_every s = 0")
      case True
      with assms have v: "visualize env epochs n epoch index imgs decoded vq gan ?s2 outs
          = (r, s', outs')"
        unfolding train_iter_return [OF return] by simp
      from visualize_images [OF v] True dir return show ?thesis
        by auto
    next
      case False
      with assms show ?thesis
        unfolding train_iter_return [OF return] by (auto split: if_splits)
    qed
  qed
  then show "saved_images outs' = saved_images outs \<or>
         (save_every s \<noteq> 0 \<and> int index mod save_every s = 0 \<and>
          (\<exists>decoded vq gan s1. step env s imgs = (Inr (decoded, vq, gan), s1) \<and>
            saved_images outs' = saved_images outs @
              [(image_path (expriment_save_dir s) epoch index, take 4 imgs @ take 4 decoded, 4)]))"
    and "r = None \<Longrightarrow> int index mod save_every s \<noteq> 0 \<Longrightarrow> saved_images outs' = saved_images outs"
    and "r = None \<Longrightarrow> int index mod save_every s = 0 \<Longrightarrow>
          \<exists>decoded vq gan s1. step env s imgs = (Inr (decoded, vq, gan), s1) \<and>
            saved_images outs' = saved_images outs @
              [(image_path (expriment_save_dir s) epoch index, take 4 imgs @ take 4 decoded, 4)]"
    by simp_all
qed

subsection \<open>The nested loops as one sequence of batches\<close>

lemma train_batches_schedule:
  "train_batches env epochs n epoch i bs s outs =
     run_schedule env epochs (batches_of epoch n i bs) s outs"
proof (induction bs arbitrary: i s outs)
  case Nil
  show ?case by (simp add: batches_of_def)
next
  case (Cons b bs)
  have "batches_of epoch n i (b # bs) = (epoch, n, i, b) # batches_of epoch n (Suc i) bs"
    by (simp add: batches_of_def)
  with Cons show ?case by (simp split: prod.splits option.splits)
qed

lemma run_schedule_append:
  "run_schedule env epochs (xs @ ys) s outs =
     (case run_schedule env epochs xs s outs of
        (Some e, s', outs') \<Rightarrow> (Some e, s', outs')
      | (None, s', outs') \<Rightarrow> run_schedule env epochs ys s' outs')"
proof (induction xs arbitrary: s outs)
  case Nil
  show ?case by simp
next
  case (Cons x xs)
  obtain epoch n index imgs where x: "x = (epoch, n, index, imgs)" by (cases x) auto
  show ?case unfolding x using Cons by (simp split: prod.splits option.splits)
qed

lemma train_epochs_schedule:
  "train_epochs env epochs dataloader es s outs =
     run_schedule env epochs
       (concat (map (\<lambda>epoch. batches_of epoch (length (dataloader epoch)) 0 (dataloader epoch)) es))
       s outs"
proof (induction es arbitrary: s outs)
  case Nil
  show ?case by simp
next
  case (Cons e es)
  show ?case
    by (simp add: Cons train_batches_schedule run_schedule_append
        split: prod.splits option.splits)
qed

lemma train_schedule:
  "train env s epochs dataloader = run_schedule env epochs (schedule epochs dataloader) s []"
  by (simp add: train_def schedule_def train_epochs_schedule)

lemma train_progress:
  "train env s epochs dataloader =
     progress env epochs dataloader s (length (schedule epochs dataloader))"
  by (simp add: train_schedule progress_def)



lemma progress_past_end:
  "length (schedule epochs dataloader) \<le> k \<Longrightarrow>
   progress env epochs dataloader s k = train env s epochs dataloader"
  by (simp add: progress_def train_schedule)

lemma run_schedule_global_step:
  assumes "run_schedule env epochs xs s outs = (r, s', outs')"
  shows "global_step s \<le> global_step s' \<and>
    (r = None \<longrightarrow> global_step s' = global_step s + int (length xs))"
  using assms
proof (induction xs arbitrary: s outs)
  case Nil
  then show ?case by simp
next
  case (Cons x xs)
  obtain epoch n index imgs where x: "x = (epoch, n, index, imgs)" by (cases x) auto
  obtain r1 s1 outs1 where t: "train_iter env epochs n epoch index imgs s outs = (r1, s1, outs1)"
    by (cases "train_iter env epochs n epoch index imgs s outs") auto
  have g: "global_step s \<le> global_step s1"
    using train_iter_global_step(1) [OF t] by (simp split: sum.splits)
  show ?case
  proof (cases r1)
    case None
    with Cons.prems t have "run_schedule env epochs xs s1 outs1 = (r, s', outs')"
      by (simp add: x)
    from Cons.IH [OF this] train_iter_global_step(2) [OF t None] show ?thesis by simp
  next
    case (Some e)
    with Cons.prems t have "r = Some e" "s' = s1" by (simp_all add: x)
    with g show ?thesis by simp
  qed
qed


lemma run_schedule_sample_batch:
  assumes "run_schedule env epochs xs s outs = (r, s', outs')" and "sample_batch s = Some b"
  shows "sample_batch s' = Some b"
  using assms
proof (induction xs arbitrary: s outs)
  case Nil
  then show ?case by simp
next
  case (Cons x xs)
  obtain epoch n index imgs where x: "x = (epoch, n, index, imgs)" by (cases x) auto
  obtain r1 s1 outs1 where t: "train_iter env epochs n epoch index imgs s outs = (r1, s1, outs1)"
    by (cases "train_iter env epochs n epoch index imgs s outs") auto
  have b: "sample_batch s1 = Some b"
    using train_iter_sample_batch(1) [OF t Cons.prems(2)] .
  show ?case
  proof (cases r1)
    case None
    with Cons.prems t have "run_schedule env epochs xs s1 outs1 = (r, s', outs')"
      by (simp add: x)
    from Cons.IH [OF this b] show ?thesis .
  next
    case (Some e)
    with Cons.prems t have "s' = s1" by (simp add: x)
    with b show ?thesis by simp
  qed
qed

lemma run_schedule_checkpoints:
  assumes "run_schedule env epochs xs s outs = (None, s', outs')"
  shows "checkpoint_paths outs' = checkpoint_paths outs @
     map (\<lambda>(epoch, n, index, imgs). checkpoint_path (expriment_save_dir s) epoch)
       (filter (\<lambda>(epoch, n, index, imgs).
          int index mod save_every s = 0 \<and> int index mod 100 = 0) xs)"
  using assms
proof (induction xs arbitrary: s outs)
  case Nil
  then show ?case by simp
next
  case (Cons x xs)
  obtain epoch n index imgs where x: "x = (epoch, n, index, imgs)" by (cases x) auto
  obtain r1 s1 outs1 where t: "train_iter env epochs n epoch index imgs s outs = (r1, s1, outs1)"
    by (cases "train_iter env epochs n epoch index imgs s outs") auto
  from Cons.prems t have r1: "r1 = None"
    by (cases r1) (simp_all add: x)
  with Cons.prems t have "run_schedule env epochs xs s1 outs1 = (None, s', outs')"
    by (simp add: x)
  from Cons.IH [OF this] train_iter_settings [OF t] train_iter_checkpoints(2) [OF t r1]
  show ?case by (simp add: x)
qed

lemma run_schedule_images:
  assumes "run_schedule env epochs xs s outs = (None, s', outs')"
  shows "map fst (saved_images outs') = map fst (saved_images outs) @
     map (\<lambda>(epoch, n, index, imgs). image_path (expriment_save_dir s) epoch index)
       (filter (\<lambda>(epoch, n, index, imgs). int index mod save_every s = 0) xs)"
  using assms
proof (induction xs arbitrary: s outs)
  case Nil
  then show ?case by simp
next
  case (Cons x xs)
  obtain epoch n index imgs where x: "x = (epoch, n, index, imgs)" by (cases x) auto
  obtain r1 s1 outs1 where t: "train_iter env epochs n epoch index imgs s outs = (r1, s1, outs1)"
    by (cases "train_iter env epochs n epoch index imgs s outs") auto
  from Cons.prems t have r1: "r1 = None"
    by (cases r1) (simp_all add: x)
  with Cons.prems t have "run_schedule env epochs xs s1 outs1 = (None, s', outs')"
    by (simp add: x)
  from Cons.IH [OF this] train_iter_settings [OF t]
    train_iter_images(2) [OF t r1] train_iter_images(3) [OF t r1]
  show ?case by (cases "int index mod save_every s = 0") (auto simp: x)
qed

lemma image_path_plain:
  "dir \<noteq> [] \<Longrightarrow> last dir \<noteq> CHR ''/'' \<Longrightarrow>
   image_path dir epoch index =
     dir @ ''/reconstructed_imgs/epoch-'' @ str_nat epoch @ ''_step-'' @ str_nat index @ ''.jpg''"
  by (simp add: image_path_def os_path_join_def join2_def)

lemma checkpoint_path_plain:
  "dir \<noteq> [] \<Longrightarrow> last dir \<noteq> CHR ''/'' \<Longrightarrow>
   checkpoint_path dir epoch = dir @ ''/vqgan_epoch_'' @ str_nat epoch @ ''.pt''"
  by (simp add: checkpoint_path_def os_path_join_def join2_def)

lemma progress_mono:
  assumes "j \<le> k"
  shows "\<exists>r s' outs'. progress env epochs dl s j = (r, s', outs') \<and>
     (case r of Some e \<Rightarrow> progress env epochs dl s k = (r, s', outs')
      | None \<Rightarrow> progress env epochs dl s k =
          run_schedule env epochs (drop j (take k (schedule epochs dl))) s' outs')"
proof -
  obtain r s' outs' where p: "progress env epochs dl s j = (r, s', outs')"
    by (cases "progress env epochs dl s j") auto
  have "take k (schedule epochs dl) =
      take j (schedule epochs dl) @ drop j (take k (schedule epochs dl))"
    using assms by (metis append_take_drop_id min.absorb1 take_take)
  then have "progress env epochs dl s k =
     (case progress env epochs dl s j of
        (Some e, s', outs') \<Rightarrow> (Some e, s', outs')
      | (None, s', outs') \<Rightarrow>
          run_schedule env epochs (drop j (take k (schedule epochs dl))) s' outs')"
    unfolding progress_def by (metis run_schedule_append)
  with p show ?thesis by (cases r) auto
qed

lemma progress_global_step_mono:
  assumes "j \<le> k"
  shows "global_step (fst (snd (progress env epochs dl s j)))
           \<le> global_step (fst (snd (progress env epochs dl s k)))"
proof -
  from progress_mono [OF assms] obtain r s' outs' where
    p: "progress env epochs dl s j = (r, s', outs')" and
    q: "case r of Some e \<Rightarrow> progress env epochs dl s k = (r, s', outs')
      | None \<Rightarrow> progress env epochs dl s k =
          run_schedule env epochs (drop j (take k (schedule epochs dl))) s' outs'"
    by blast
  show ?thesis
  proof (cases r)
    case (Some e)
    with p q show ?thesis by simp
  next
    case None
    obtain r2 s2 outs2 where
      k: "run_schedule env epochs (drop j (take k (schedule epochs dl))) s' outs' = (r2, s2, outs2)"
      by (cases "run_schedule env epochs (drop j (take k (schedule epochs dl))) s' outs'") auto
    from run_schedule_global_step [OF k] None p q k show ?thesis by simp
  qed
qed

lemma progress_sample_batch:
  assumes "j \<le> k" and "sample_batch (fst (snd (progress env epochs dl s j))) = Some b"
  shows "sample_batch (fst (snd (progress env epochs dl s k))) = Some b"
proof -
  from progress_mono [OF assms(1)] obtain r s' outs' where
    p: "progress env epochs dl s j = (r, s', outs')" and
    q: "case r of Some e \<Rightarrow> progress env epochs dl s k = (r, s', outs')
      | None \<Rightarrow> progress env epochs dl s k =
          run_schedule env epochs (drop j (take k (schedule epochs dl))) s' outs'"
    by blast
  from p assms(2) have b: "sample_batch s' = Some b" by simp
  show ?thesis
  proof (cases r)
    case (Some e)
    with p q assms(2) show ?thesis by simp
  next
    case None
    obtain r2 s2 outs2 where
      k: "run_schedule env epochs (drop j (take k (schedule epochs dl))) s' outs' = (r2, s2, outs2)"
      by (cases "run_schedule env epochs (drop j (take k (schedule epochs dl))) s' outs'") auto
    from run_schedule_sample_batch [OF k b] None q k show ?thesis by simp
  qed
qed

lemma progress_global_step:
  assumes "k \<le> length (schedule epochs dl)" and "fst (progress env epochs dl s k) = None"
  shows "global_step (fst (snd (progress env epochs dl s k))) = global_step s + int k"
proof -
  obtain r s' outs' where p: "progress env epochs dl s k = (r, s', outs')"
    by (cases "progress env epochs dl s k") auto
  with assms(2) have "r = None" by simp
  with run_schedule_global_step [OF p [unfolded progress_def]] assms(1) p
  show ?thesis by simp
qed

lemma visualize_frame:
  assumes "visualize env epochs n epoch index imgs decoded vq gan s outs = (r, s', outs')"
    and "sample_batch s = Some b"
  shows "gif_images s' = gif_images s \<or>
    (\<exists>d q frame. vqgan env (vq_params s) b = Inr (d, q) \<and> make_grid env (b @ d) = Inr frame \<and>
       gif_images s' = gif_images s @ [frame])"
  using assms unfolding visualize_def
  by (auto simp: Let_def dest!: save_model_facts split: sum.splits prod.splits if_splits)

lemma step_same_length:
  assumes "step env s imgs = (Inr (decoded, vq, gan), s1)"
  shows "length decoded = length imgs"
proof -
  from assms have "step_losses env s imgs = Inr (decoded, vq, gan)" by (rule step_Inr)
  then obtain ps prl where "perceptual_rec_loss s ps imgs decoded = Inr prl"
    using step_losses_Inr by blast
  then have "map length imgs = map length decoded"
    by (simp add: perceptual_rec_loss_Inr)
  then show ?thesis by (metis length_map)
qed

section \<open>The global step counter\<close>

text \<open>
  Claim C5. The global step counter is 0 at construction. Each pass of the loop body
  adds exactly 1 to it when the optimization step returns, whether or not the batch
  is on the visualization or checkpoint cadence, and nothing when the step raises. In
  the course of a run the counter never decreases, across epochs as well, and after
  \<open>k\<close> batches of a run that has not raised it has grown by \<open>k\<close>.
\<close>

theorem global_step_counts_batches:
  "global_step (init env model df ds plf rlf every dir) = 0 \<and>
   global_step (fst (snd (train_iter env epochs n epoch index imgs s outs))) =
     global_step s + (case fst (step env s imgs) of Inl e \<Rightarrow> 0 | Inr x \<Rightarrow> 1) \<and>
   (j \<le> k \<longrightarrow> global_step (fst (snd (progress env epochs dl s j)))
                 \<le> global_step (fst (snd (progress env epochs dl s k)))) \<and>
   (k \<le> length (schedule epochs dl) \<and> fst (progress env epochs dl s k) = None \<longrightarrow>
      global_step (fst (snd (progress env epochs dl s k))) = global_step s + int k) \<and>
   train env s epochs dl = progress env epochs dl s (length (schedule epochs dl))"
proof (intro conjI impI)
  show "global_step (init env model df ds plf rlf every dir) = 0"
    by (simp add: init_def)
next
  obtain r s' outs' where t: "train_iter env epochs n epoch index imgs s outs = (r, s', outs')"
    by (cases "train_iter env epochs n epoch index imgs s outs") auto
  from train_iter_global_step(1) [OF t] t
  show "global_step (fst (snd (train_iter env epochs n epoch index imgs s outs))) =
     global_step s + (case fst (step env s imgs) of Inl e \<Rightarrow> 0 | Inr x \<Rightarrow> 1)"
    by simp
next
  assume "j \<le> k"
  then show "global_step (fst (snd (progress env epochs dl s j)))
                 \<le> global_step (fst (snd (progress env epochs dl s k)))"
    by (rule progress_global_step_mono)
next
  assume a: "k \<le> length (schedule epochs dl) \<and> fst (progress env epochs dl s k) = None"
  from a have "k \<le> length (schedule epochs dl)" "fst (progress env epochs dl s k) = None"
    by simp_all
  then show "global_step (fst (snd (progress env epochs dl s k))) = global_step s + int k"
    by (rule progress_global_step)
next
  show "train env s epochs dl = progress env epochs dl s (length (schedule epochs dl))"
    by (rule train_progress)
qed

theorem global_step_counts_batches_witness:
  "(1::nat) \<le> 4 \<and> 4 \<le> length (schedule 2 three_batches) \<and>
   fst (progress stub_env 2 three_batches (stub_trainer 2) 4) = None \<and>
   global_step (fst (snd (progress stub_env 2 three_batches (stub_trainer 2) 1))) = 1 \<and>
   global_step (fst (snd (progress stub_env 2 three_batches (stub_trainer 2) 4))) = 4"
proof -
  have a: "fst (progress stub_env 2 three_batches (stub_trainer 2) 4) = None"
    by code_simp
  have b: "4 \<le> length (schedule 2 three_batches)"
    by code_simp
  have c: "global_step (fst (snd (progress stub_env 2 three_batches (stub_trainer 2) 1))) = 1"
    by code_simp
  have d: "global_step (stub_trainer 2) = 0"
    by (simp add: stub_defs)
  from global_step_counts_batches [of stub_env 0 0 0 0 0 0 "[]" 2 0 0 0 "[]" "stub_trainer 2" "[]"
      1 4 three_batches] a b c d
  show ?thesis by simp
qed



section \<open>The sample batch\<close>

text \<open>
  Claim C6. The sample batch is empty at construction. While it is empty, a pass of
  the loop body sets it exactly when the step returns and the batch is on the
  \<^verbatim>\<open>save_every\<close> cadence, to the first image of that batch. Once set, it is kept by
  every later pass and through the rest of the run, and each later visualization frame
  is rendered from these retained data.
\<close>

theorem sample_batch_fixed:
  "sample_batch (init env model df ds plf rlf every dir) = None \<and>
   (sample_batch s = Some b \<longrightarrow>
      sample_batch (fst (snd (train_iter env epochs n epoch index imgs s outs))) = Some b) \<and>
   (sample_batch s = None \<longrightarrow>
      sample_batch (fst (snd (train_iter env epochs n epoch index imgs s outs))) =
        (if (\<exists>x. fst (step env s imgs) = Inr x) \<and> save_every s \<noteq> 0 \<and>
            int index mod save_every s = 0
         then Some (take 1 imgs) else None)) \<and>
   (j \<le> k \<and> sample_batch (fst (snd (progress env epochs dl s j))) = Some b \<longrightarrow>
      sample_batch (fst (snd (progress env epochs dl s k))) = Some b) \<and>
   (sample_batch s = Some b \<and>
    visualize env epochs n epoch index imgs decoded vq gan s outs = (r, s', outs') \<longrightarrow>
      gif_images s' = gif_images s \<or>
      (\<exists>d q frame. vqgan env (vq_params s) b = Inr (d, q) \<and>
         make_grid env (b @ d) = Inr frame \<and> gif_images s' = gif_images s @ [frame])) \<and>
   train env s epochs dl = progress env epochs dl s (length (schedule epochs dl))"
proof (intro conjI impI)
  show "train env s epochs dl = progress env epochs dl s (length (schedule epochs dl))"
    by (rule train_progress)
next
  show "sample_batch (init env model df ds plf rlf every dir) = None"
    by (simp add: init_def)
next
  obtain r1 s1 outs1 where t: "train_iter env epochs n epoch index imgs s outs = (r1, s1, outs1)"
    by (cases "train_iter env epochs n epoch index imgs s outs") auto
  assume "sample_batch s = Some b"
  from train_iter_sample_batch(1) [OF t this] t
  show "sample_batch (fst (snd (train_iter env epochs n epoch index imgs s outs))) = Some b"
    by simp
next
  obtain r1 s1 outs1 where t: "train_iter env epochs n epoch index imgs s outs = (r1, s1, outs1)"
    by (cases "train_iter env epochs n epoch index imgs s outs") auto
  assume "sample_batch s = None"
  from train_iter_sample_batch(2) [OF t this] t
  show "sample_batch (fst (snd (train_iter env epochs n epoch index imgs s outs))) =
        (if (\<exists>x. fst (step env s imgs) = Inr x) \<and> save_every s \<noteq> 0 \<and>
            int index mod save_every s = 0
         then Some (take 1 imgs) else None)"
    by simp
next
  assume a: "j \<le> k \<and> sample_batch (fst (snd (progress env epochs dl s j))) = Some b"
  from a have "j \<le> k" "sample_batch (fst (snd (progress env epochs dl s j))) = Some b"
    by simp_all
  then show "sample_batch (fst (snd (progress env epochs dl s k))) = Some b"
    by (rule progress_sample_batch)
next
  assume a: "sample_batch s = Some b \<and>
    visualize env epochs n epoch index imgs decoded vq gan s outs = (r, s', outs')"
  from a have "visualize env epochs n epoch index imgs decoded vq gan s outs = (r, s', outs')"
    "sample_batch s = Some b" by simp_all
  then show "gif_images s' = gif_images s \<or>
      (\<exists>d q frame. vqgan env (vq_params s) b = Inr (d, q) \<and>
         make_grid env (b @ d) = Inr frame \<and> gif_images s' = gif_images s @ [frame])"
    by (rule visualize_frame)
qed

theorem sample_batch_fixed_witness:
  "sample_batch (stub_trainer 2) = None \<and>
   sample_batch (fst (snd (train_iter stub_env 2 3 0 0 [[1, 2]] (stub_trainer 2) []))) =
     Some [[1, 2]] \<and>
   sample_batch (fst (snd (train_iter stub_env 2 3 0 1 [[3]]
      (fst (snd (train_iter stub_env 2 3 0 0 [[1, 2]] (stub_trainer 2) []))) []))) =
     Some [[1, 2]] \<and>
   (1::nat) \<le> 4 \<and>
   sample_batch (fst (snd (progress stub_env 2 three_batches (stub_trainer 2) 1))) = Some [[1, 2]] \<and>
   sample_batch (fst (snd (progress stub_env 2 three_batches (stub_trainer 2) 4))) = Some [[1, 2]] \<and>
   gif_images (fst (snd (visualize stub_env 2 3 0 2 [[4]] [[4]] 0 0
      (fst (snd (train_iter stub_env 2 3 0 0 [[1, 2]] (stub_trainer 2) []))) []))) = [2, 2]"
proof -
  let ?s1 = "fst (snd (train_iter stub_env 2 3 0 0 [[1, 2]] (stub_trainer 2) []))"
  let ?v = "visualize stub_env 2 3 0 2 [[4]] [[4]] 0 0 ?s1 []"
  have a: "sample_batch (stub_trainer 2) = None" by code_simp
  have b: "sample_batch ?s1 = Some [[1, 2]]" by code_simp
  have c: "sample_batch (fst (snd (progress stub_env 2 three_batches (stub_trainer 2) 1)))
      = Some [[1, 2]]" by code_simp
  have d: "?v = (fst ?v, fst (snd ?v), snd (snd ?v))" by simp
  have e: "gif_images (fst (snd ?v)) = [2, 2]" by code_simp
  have f: "(\<exists>x. fst (step stub_env (stub_trainer 2) [[1, 2]]) = Inr x) \<and> save_every (stub_trainer 2) \<noteq> 0
      \<and> int 0 mod save_every (stub_trainer 2) = 0"
    by (simp add: stub_defs step_defs)
  from sample_batch_fixed [where env = stub_env and model = 1 and df = 1 and ds = 100 and plf = 1
      and rlf = 1 and every = 2 and dir = "''exp''" and s = "stub_trainer 2" and b = "[[1, 2]]"
      and epochs = 2 and n = 3 and epoch = 0 and index = 0 and imgs = "[[1, 2]]" and outs = "[]"
      and j = 1 and k = 4 and dl = three_batches and decoded = "[[4]]" and vq = 0 and gan = 0
      and r = None and s' = "stub_trainer 2" and outs' = "[]"]
    sample_batch_fixed [where env = stub_env and model = 1 and df = 1 and ds = 100 and plf = 1
      and rlf = 1 and every = 2 and dir = "''exp''" and s = ?s1 and b = "[[1, 2]]"
      and epochs = 2 and n = 3 and epoch = 0 and index = 1 and imgs = "[[3]]" and outs = "[]"
      and j = 1 and k = 4 and dl = three_batches and decoded = "[[4]]" and vq = 0 and gan = 0
      and r = "fst ?v" and s' = "fst (snd ?v)" and outs' = "snd (snd ?v)"]
    a b c e f
  show ?thesis by (simp add: stub_trainer_def)
qed

section \<open>Checkpoints and visualization images\<close>

text \<open>
  Claim C4, as the code has it. A pass of the loop body writes at most one checkpoint,
  to the path of the experiment directory joined with \<^verbatim>\<open>vqgan_epoch_<epoch>.pt\<close>. It
  writes one only when the index of the batch in its epoch is a multiple of
  \<^verbatim>\<open>save_every\<close> and a multiple of 100, and a pass that does not raise writes one
  exactly then. The checkpoints of a run that does not raise are those of the batches
  on this cadence, in order.
\<close>

theorem checkpoint_cadence:
  assumes "train_iter env epochs n epoch index imgs s outs = (r, s', outs')"
  shows "(checkpoint_paths outs' = checkpoint_paths outs \<or>
      checkpoint_paths outs' = checkpoint_paths outs @ [checkpoint_path (expriment_save_dir s) epoch]) \<and>
    (checkpoint_paths outs' \<noteq> checkpoint_paths outs \<longrightarrow>
       save_every s \<noteq> 0 \<and> int index mod save_every s = 0 \<and> int index mod 100 = 0) \<and>
    (r = None \<longrightarrow>
       (checkpoint_paths outs' \<noteq> checkpoint_paths outs) =
       (int index mod save_every s = 0 \<and> int index mod 100 = 0)) \<and>
    (expriment_save_dir s \<noteq> [] \<and> last (expriment_save_dir s) \<noteq> CHR ''/'' \<longrightarrow>
       checkpoint_path (expriment_save_dir s) epoch =
         expriment_save_dir s @ ''/vqgan_epoch_'' @ str_nat epoch @ ''.pt'') \<and>
    (fst (train env s0 epochs dl) = None \<longrightarrow>
       checkpoint_paths (snd (snd (train env s0 epochs dl))) =
         map (\<lambda>(epoch, n, index, imgs). checkpoint_path (expriment_save_dir s0) epoch)
           (filter (\<lambda>(epoch, n, index, imgs).
              int index mod save_every s0 = 0 \<and> int index mod 100 = 0) (schedule epochs dl)))"
proof (intro conjI impI)
  from train_iter_checkpoints(1) [OF assms]
  show "checkpoint_paths outs' = checkpoint_paths outs \<or>
      checkpoint_paths outs' = checkpoint_paths outs @ [checkpoint_path (expriment_save_dir s) epoch]"
    by auto
next
  assume "checkpoint_paths outs' \<noteq> checkpoint_paths outs"
  with train_iter_checkpoints(1) [OF assms]
  have c: "save_every s \<noteq> 0 \<and> int index mod save_every s = 0 \<and> int index mod 100 = 0"
    by auto
  from c show "save_every s \<noteq> 0" by simp
  from c show "int index mod save_every s = 0" by simp
  from c show "int index mod 100 = 0" by simp
next
  assume "r = None"
  from train_iter_checkpoints(2) [OF assms this]
  show "(checkpoint_paths outs' \<noteq> checkpoint_paths outs) =
       (int index mod save_every s = 0 \<and> int index mod 100 = 0)"
    by (auto split: if_splits)
next
  assume "expriment_save_dir s \<noteq> [] \<and> last (expriment_save_dir s) \<noteq> CHR ''/''"
  then show "checkpoint_path (expriment_save_dir s) epoch =
         expriment_save_dir s @ ''/vqgan_epoch_'' @ str_nat epoch @ ''.pt''"
    by (simp add: checkpoint_path_plain)
next
  assume n: "fst (train env s0 epochs dl) = None"
  let ?t = "train env s0 epochs dl"
  have "run_schedule env epochs (schedule epochs dl) s0 [] = (None, fst (snd ?t), snd (snd ?t))"
    using n by (metis train_schedule prod.collapse)
  from run_schedule_checkpoints [OF this]
  show "checkpoint_paths (snd (snd ?t)) =
         map (\<lambda>(epoch, n, index, imgs). checkpoint_path (expriment_save_dir s0) epoch)
           (filter (\<lambda>(epoch, n, index, imgs).
              int index mod save_every s0 = 0 \<and> int index mod 100 = 0) (schedule epochs dl))"
    by simp
qed

theorem checkpoint_cadence_witness:
  "fst (train_iter stub_env 2 200 0 100 [[1, 2]] (stub_trainer 50) []) = None \<and>
   checkpoint_paths (snd (snd (train_iter stub_env 2 200 0 100 [[1, 2]] (stub_trainer 50) []))) =
     [''exp/vqgan_epoch_0.pt''] \<and>
   int 100 mod save_every (stub_trainer 50) = 0 \<and> int 100 mod 100 = 0 \<and>
   expriment_save_dir (stub_trainer 50) = ''exp'' \<and>
   fst (train stub_env (stub_trainer 2) 2 three_batches) = None \<and>
   checkpoint_paths (snd (snd (train stub_env (stub_trainer 2) 2 three_batches))) =
     [''exp/vqgan_epoch_0.pt'', ''exp/vqgan_epoch_1.pt'']"
proof -
  let ?t = "train_iter stub_env 2 200 0 100 [[1, 2]] (stub_trainer 50) []"
  have a: "fst ?t = None" by code_simp
  then have b: "?t = (None, fst (snd ?t), snd (snd ?t))" by (metis prod.collapse)
  have c: "checkpoint_paths (snd (snd ?t)) = [''exp/vqgan_epoch_0.pt'']" by code_simp
  have d: "fst (train stub_env (stub_trainer 2) 2 three_batches) = None" by code_simp
  have e: "checkpoint_paths (snd (snd (train stub_env (stub_trainer 2) 2 three_batches))) =
     [''exp/vqgan_epoch_0.pt'', ''exp/vqgan_epoch_1.pt'']" by code_simp
  from checkpoint_cadence [OF b, of "stub_trainer 2" three_batches] a c d e
  show ?thesis by (simp add: stub_defs)
qed

text \<open>
  Claim C4 as stated fails: with \<^verbatim>\<open>save_every\<close> = 100, batch 100 of an epoch is the
  occurrence number 1 of the visualization cadence, not a hundredth occurrence, and the
  checkpoint is written.
\<close>

theorem checkpoint_every_hundredth_occurrence_counterexample:
  "fst (train_iter stub_env 1 200 0 100 [[1, 2]] ((stub_trainer 100)\<lparr>global_step := 100\<rparr>) [])
     = None \<and>
   checkpoint_paths (snd (snd (train_iter stub_env 1 200 0 100 [[1, 2]]
     ((stub_trainer 100)\<lparr>global_step := 100\<rparr>) []))) = [''exp/vqgan_epoch_0.pt''] \<and>
   \<not> spec_nested_cadence (save_every (stub_trainer 100)) 100"
  by code_simp

text \<open>
  Claim C8, as the code has it. A pass of the loop body writes at most one
  visualization image, to the path of the experiment directory joined with
  \<^verbatim>\<open>reconstructed_imgs\<close> and \<^verbatim>\<open>epoch-<epoch>_step-<index>.jpg\<close>. It writes one only when
  the index of the batch in its epoch is a multiple of \<^verbatim>\<open>save_every\<close>, and a pass that
  does not raise writes one exactly then. The image is a grid of 4 columns holding the
  first four samples of the batch, or all of them when the batch has fewer, followed by
  as many of their reconstructions.
\<close>

theorem visualization_cadence:
  assumes "train_iter env epochs n epoch index imgs s outs = (r, s', outs')"
  shows "(saved_images outs' = saved_images outs \<or>
      (\<exists>decoded vq gan s1. step env s imgs = (Inr (decoded, vq, gan), s1) \<and>
         saved_images outs' = saved_images outs @
           [(image_path (expriment_save_dir s) epoch index, take 4 imgs @ take 4 decoded, 4)] \<and>
         length (take 4 imgs @ take 4 decoded) = 2 * min 4 (length imgs))) \<and>
    (saved_images outs' \<noteq> saved_images outs \<longrightarrow>
       save_every s \<noteq> 0 \<and> int index mod save_every s = 0) \<and>
    (r = None \<longrightarrow>
       (saved_images outs' \<noteq> saved_images outs) = (int index mod save_every s = 0)) \<and>
    (expriment_save_dir s \<noteq> [] \<and> last (expriment_save_dir s) \<noteq> CHR ''/'' \<longrightarrow>
       image_path (expriment_save_dir s) epoch index =
         expriment_save_dir s @ ''/reconstructed_imgs/epoch-'' @ str_nat epoch @ ''_step-''
           @ str_nat index @ ''.jpg'') \<and>
    (fst (train env s0 epochs dl) = None \<longrightarrow>
       map fst (saved_images (snd (snd (train env s0 epochs dl)))) =
         map (\<lambda>(epoch, n, index, imgs). image_path (expriment_save_dir s0) epoch index)
           (filter (\<lambda>(epoch, n, index, imgs). int index mod save_every s0 = 0)
              (schedule epochs dl)))"
proof (intro conjI impI)
  have len: "length (take 4 imgs @ take 4 decoded) = 2 * min 4 (length imgs)"
    if "step env s imgs = (Inr (decoded, vq, gan), s1)" for decoded vq gan s1
    using step_same_length [OF that] by simp
  from train_iter_images(1) [OF assms] len
  show "saved_images outs' = saved_images outs \<or>
      (\<exists>decoded vq gan s1. step env s imgs = (Inr (decoded, vq, gan), s1) \<and>
         saved_images outs' = saved_images outs @
           [(image_path (expriment_save_dir s) epoch index, take 4 imgs @ take 4 decoded, 4)] \<and>
         length (take 4 imgs @ take 4 decoded) = 2 * min 4 (length imgs))"
    by blast
next
  assume "saved_images outs' \<noteq> saved_images outs"
  with train_iter_images(1) [OF assms]
  have c: "save_every s \<noteq> 0 \<and> int index mod save_every s = 0"
    by auto
  from c show "save_every s \<noteq> 0" by simp
  from c show "int index mod save_every s = 0" by simp
next
  assume none: "r = None"
  show "(saved_images outs' \<noteq> saved_images outs) = (int index mod save_every s = 0)"
  proof (cases "int index mod save_every s = 0")
    case True
    from train_iter_images(3) [OF assms none True] True show ?thesis by auto
  next
    case False
    from train_iter_images(2) [OF assms none False] False show ?thesis by simp
  qed
next
  assume "expriment_save_dir s \<noteq> [] \<and> last (expriment_save_dir s) \<noteq> CHR ''/''"
  then show "image_path (expriment_save_dir s) epoch index =
         expriment_save_dir s @ ''/reconstructed_imgs/epoch-'' @ str_nat epoch @ ''_step-''
           @ str_nat index @ ''.jpg''"
    by (simp add: image_path_plain)
next
  assume n: "fst (train env s0 epochs dl) = None"
  let ?t = "train env s0 epochs dl"
  have "run_schedule env epochs (schedule epochs dl) s0 [] = (None, fst (snd ?t), snd (snd ?t))"
    using n by (metis train_schedule prod.collapse)
  from run_schedule_images [OF this]
  show "map fst (saved_images (snd (snd ?t))) =
         map (\<lambda>(epoch, n, index, imgs). image_path (expriment_save_dir s0) epoch index)
           (filter (\<lambda>(epoch, n, index, imgs). int index mod save_every s0 = 0)
              (schedule epochs dl))"
    by simp
qed

theorem visualization_cadence_witness:
  "fst (train_iter stub_env 2 3 1 2 [[1], [2], [3], [4], [5]] (stub_trainer 2) []) = None \<and>
   saved_images (snd (snd (train_iter stub_env 2 3 1 2 [[1], [2], [3], [4], [5]]
       (stub_trainer 2) []))) =
     [(''exp/reconstructed_imgs/epoch-1_step-2.jpg'',
       [[1], [2], [3], [4], [1], [2], [3], [4]], 4)] \<and>
   int 2 mod save_every (stub_trainer 2) = 0 \<and>
   expriment_save_dir (stub_trainer 2) = ''exp'' \<and>
   fst (train stub_env (stub_trainer 2) 2 three_batches) = None \<and>
   map fst (saved_images (snd (snd (train stub_env (stub_trainer 2) 2 three_batches)))) =
     [''exp/reconstructed_imgs/epoch-0_step-0.jpg'', ''exp/reconstructed_imgs/epoch-0_step-2.jpg'',
      ''exp/reconstructed_imgs/epoch-1_step-0.jpg'', ''exp/reconstructed_imgs/epoch-1_step-2.jpg'']"
proof -
  let ?t = "train_iter stub_env 2 3 1 2 [[1], [2], [3], [4], [5]] (stub_trainer 2) []"
  have a: "fst ?t = None" by code_simp
  then have b: "?t = (None, fst (snd ?t), snd (snd ?t))" by (metis prod.collapse)
  have c: "saved_images (snd (snd ?t)) =
     [(''exp/reconstructed_imgs/epoch-1_step-2.jpg'',
       [[1], [2], [3], [4], [1], [2], [3], [4]], 4)]" by code_simp
  have d: "fst (train stub_env (stub_trainer 2) 2 three_batches) = None" by code_simp
  have e: "map fst (saved_images (snd (snd (train stub_env (stub_trainer 2) 2 three_batches)))) =
     [''exp/reconstructed_imgs/epoch-0_step-0.jpg'', ''exp/reconstructed_imgs/epoch-0_step-2.jpg'',
      ''exp/reconstructed_imgs/epoch-1_step-0.jpg'', ''exp/reconstructed_imgs/epoch-1_step-2.jpg'']"
    by code_simp
  from visualization_cadence [OF b, of "stub_trainer 2" three_batches] a c d e
  show ?thesis by (simp add: stub_defs)
qed

text \<open>
  Claim C8 as stated fails: for a batch of one image the grid holds one real and one
  reconstructed sample, not four of each.
\<close>

theorem visualization_four_plus_four_counterexample:
  "fst (train stub_env (stub_trainer 100) 1 one_small_batch) = None \<and>
   saved_images (snd (snd (train stub_env (stub_trainer 100) 1 one_small_batch))) =
     [(''exp/reconstructed_imgs/epoch-0_step-0.jpg'', [[1, 2], [1, 2]], 4)] \<and>
   length (fst (snd (hd (saved_images
     (snd (snd (train stub_env (stub_trainer 100) 1 one_small_batch))))))) = 2"
  by code_simp

end
